theory Spec2Isabelle
  imports Complex_Main
begin

text \<open>
  The class \<^verbatim>\<open>FileSharing\<close> of \<^verbatim>\<open>fileSharing.js\<close> and the listeners that the
  application installs around it. The file holds two listings of the class (lines 1 to 146
  and lines 146 to 375). \<^verbatim>\<open>shareFile\<close>, \<^verbatim>\<open>announceFile\<close>,
  \<^verbatim>\<open>handleFileAnnouncement\<close>, \<^verbatim>\<open>getSharedFiles\<close> and \<^verbatim>\<open>getAvailableFiles\<close> are
  the same text in both; the stream handler of \<^verbatim>\<open>setupProtocol\<close> and
  \<^verbatim>\<open>requestFile\<close> differ, and are modelled once for each listing, with the suffixes
  \<open>_1\<close> and \<open>_2\<close>.
\<close>

section \<open>JavaScript values\<close>

text \<open>
  The values that travel between peers are what \<^verbatim>\<open>JSON.parse\<close> can return: null,
  booleans, numbers, strings, arrays and objects. A value that may also be
  \<^verbatim>\<open>undefined\<close> (a property that is not there) is a \<open>json option\<close>, with
  \<open>None\<close> for \<^verbatim>\<open>undefined\<close>. An object is the list of its properties in insertion
  order, each name once.

  A number is a double that is not NaN (\<^verbatim>\<open>JSON.parse\<close> returns none): a finite one,
  given by its value, or one of the two infinities, which a literal such as \<^verbatim>\<open>1e999\<close>
  parses to. The two zeros are one value here: the program tests a number for truth,
  compares it as a key of a Map and prints it, and none of these tells them apart. File
  sizes and \<^verbatim>\<open>Date.now()\<close> timestamps are whole numbers.
\<close>

datatype js_number = Finite rat | PlusInfinity | MinusInfinity

datatype json =
    JNull
  | JBool bool
  | JNum js_number
  | JStr string
  | JArr "json list"
  | JObj "(string \<times> json) list"

type_synonym jsval = "json option"

text \<open>
  An exception is an \<^verbatim>\<open>Error\<close> object, of which the program reads the
  \<^verbatim>\<open>message\<close> only.
\<close>

datatype js_error = JsError (message: string)

text \<open>
  Reading a property \<^verbatim>\<open>v.p\<close>, for the property names this program reads
  (\<^verbatim>\<open>type\<close>, \<^verbatim>\<open>fileId\<close>, \<^verbatim>\<open>error\<close>, \<^verbatim>\<open>peerId\<close>, \<^verbatim>\<open>fileName\<close>,
  \<^verbatim>\<open>fileSize\<close>, \<^verbatim>\<open>timestamp\<close>): none of them is inherited from a prototype, so
  on a number, string, boolean or array the result is \<^verbatim>\<open>undefined\<close>. On
  \<^verbatim>\<open>null\<close> the read throws a TypeError, and so does destructuring.
\<close>

definition null_read :: js_error where
  "null_read = JsError ''Cannot read properties of null''"

fun get_prop :: "json \<Rightarrow> string \<Rightarrow> js_error + jsval" where
  "get_prop JNull p = Inl null_read"
| "get_prop (JObj fs) p = Inr (map_of fs p)"
| "get_prop v p = Inr None"

text \<open>Truthiness, as \<^verbatim>\<open>if (v)\<close> and \<^verbatim>\<open>!v\<close> test it.\<close>

fun truthy :: "jsval \<Rightarrow> bool" where
  "truthy None = False"
| "truthy (Some JNull) = False"
| "truthy (Some (JBool b)) = b"
| "truthy (Some (JNum n)) = (n \<noteq> Finite 0)"
| "truthy (Some (JStr s)) = (s \<noteq> [])"
| "truthy (Some (JArr xs)) = True"
| "truthy (Some (JObj fs)) = True"

text \<open>
  Conversion to a string, as a template literal \<^verbatim>\<open>`${v}`\<close> does it (ToString of
  ECMAScript). A whole number below \<open>10^21\<close> in magnitude prints in decimal and the
  infinities print as their names; for every other number the digits are those of
  Number::toString, which is no code of this repository and is the parameter \<open>num\<close>.
  An array joins the strings of its elements with commas, a null element printing as
  nothing. An object made by \<^verbatim>\<open>JSON.parse\<close> prints as \<^verbatim>\<open>[object Object]\<close> through
  the \<^verbatim>\<open>toString\<close> it inherits; when it has a property of that name of its own, which
  is no function, the conversion finds nothing to call and throws a TypeError.
\<close>

fun digits :: "nat \<Rightarrow> string" where
  "digits n =
     (if n < 10 then [''0123456789'' ! n] else digits (n div 10) @ [''0123456789'' ! (n mod 10)])"

definition show_int :: "int \<Rightarrow> string" where
  "show_int i = (if i < 0 then CHR ''-'' # digits (nat (- i)) else digits (nat i))"

definition whole :: "rat \<Rightarrow> bool" where
  "whole r = (r = of_int \<lfloor>r\<rfloor> \<and> \<bar>r\<bar> < 10 ^ 21)"

definition number_text :: "(rat \<Rightarrow> string) \<Rightarrow> js_number \<Rightarrow> string" where
  "number_text num n =
     (case n of
        Finite r \<Rightarrow> if whole r then show_int \<lfloor>r\<rfloor> else num r
      | PlusInfinity \<Rightarrow> ''Infinity''
      | MinusInfinity \<Rightarrow> ''-Infinity'')"

fun join_comma :: "string list \<Rightarrow> string" where
  "join_comma [] = []"
| "join_comma [s] = s"
| "join_comma (s # t # ss) = s @ '','' @ join_comma (t # ss)"

definition cannot_convert :: js_error where
  "cannot_convert = JsError ''Cannot convert object to primitive value''"

fun to_string :: "(rat \<Rightarrow> string) \<Rightarrow> json \<Rightarrow> js_error + string"
  and element_strings :: "(rat \<Rightarrow> string) \<Rightarrow> json list \<Rightarrow> js_error + string list" where
  "to_string num JNull = Inr ''null''"
| "to_string num (JBool b) = Inr (if b then ''true'' else ''false'')"
| "to_string num (JNum n) = Inr (number_text num n)"
| "to_string num (JStr s) = Inr s"
| "to_string num (JArr xs) =
     (case element_strings num xs of Inl err \<Rightarrow> Inl err | Inr ss \<Rightarrow> Inr (join_comma ss))"
| "to_string num (JObj fs) =
     (if map_of fs ''toString'' = None then Inr ''[object Object]'' else Inl cannot_convert)"
| "element_strings num [] = Inr []"
| "element_strings num (x # xs) =
     (case (if x = JNull then Inr [] else to_string num x) of
        Inl err \<Rightarrow> Inl err
      | Inr s \<Rightarrow>
          (case element_strings num xs of Inl err \<Rightarrow> Inl err | Inr ss \<Rightarrow> Inr (s # ss)))"

definition template :: "(rat \<Rightarrow> string) \<Rightarrow> jsval \<Rightarrow> js_error + string" where
  "template num v = (case v of None \<Rightarrow> Inr ''undefined'' | Some j \<Rightarrow> to_string num j)"

section \<open>The Map tables\<close>

text \<open>
  A JavaScript \<^verbatim>\<open>Map\<close> keeps its entries in insertion order and compares keys by
  SameValueZero: primitives by value, objects and arrays by reference. An object or array
  reaches a Map of this program only as a freshly parsed value, so it is never the
  reference of a key already stored.
\<close>

type_synonym 'v js_map = "(jsval \<times> 'v) list"

fun same_value_zero :: "jsval \<Rightarrow> jsval \<Rightarrow> bool" where
  "same_value_zero (Some (JArr xs)) k = False"
| "same_value_zero (Some (JObj fs)) k = False"
| "same_value_zero k' k = (k' = k)"

fun map_set :: "jsval \<Rightarrow> 'v \<Rightarrow> 'v js_map \<Rightarrow> 'v js_map" where
  "map_set k v [] = [(k, v)]"
| "map_set k v ((k', v') # m) =
     (if same_value_zero k k' then (k', v) # m else (k', v') # map_set k v m)"

fun map_get :: "jsval \<Rightarrow> 'v js_map \<Rightarrow> 'v option" where
  "map_get k [] = None"
| "map_get k ((k', v') # m) = (if same_value_zero k k' then Some v' else map_get k m)"

definition map_has :: "jsval \<Rightarrow> 'v js_map \<Rightarrow> bool" where
  "map_has k m = (map_get k m \<noteq> None)"

fun map_delete :: "jsval \<Rightarrow> 'v js_map \<Rightarrow> 'v js_map" where
  "map_delete k [] = []"
| "map_delete k ((k', v') # m) = (if same_value_zero k k' then m else (k', v') # map_delete k m)"

definition map_values :: "'v js_map \<Rightarrow> 'v list" where
  "map_values m = map snd m"

section \<open>The state of a FileSharing object\<close>

text \<open>
  \<^verbatim>\<open>fileData\<close>, the record that \<^verbatim>\<open>shareFile\<close> stores: \<^verbatim>\<open>id\<close>, \<^verbatim>\<open>name\<close>,
  \<^verbatim>\<open>type\<close>, \<^verbatim>\<open>size\<close>, \<^verbatim>\<open>data\<close>, \<^verbatim>\<open>timestamp\<close> (the fields carry a prefix, as
  \<open>id\<close> and \<open>size\<close> are constants of HOL).
\<close>

record shared_file =
  sf_id :: string
  sf_name :: string
  sf_type :: string
  sf_size :: int
  sf_data :: string
  sf_timestamp :: int

text \<open>
  \<^verbatim>\<open>fileInfo\<close>, the record that \<^verbatim>\<open>handleFileAnnouncement\<close> stores. Its fields are
  whatever the announcement carried, \<^verbatim>\<open>undefined\<close> included: nothing is validated.
\<close>

record file_info =
  peerId :: jsval
  fileId :: jsval
  fileName :: jsval
  fileSize :: jsval
  timestamp :: jsval

record state =
  sharedFiles :: "shared_file js_map"
  availableFiles :: "file_info js_map"

text \<open>The constructor: both tables start empty.\<close>

definition init :: state where
  "init = \<lparr>sharedFiles = [], availableFiles = []\<rparr>"

definition getSharedFiles :: "state \<Rightarrow> shared_file list" where
  "getSharedFiles st = map_values (sharedFiles st)"

definition getAvailableFiles :: "state \<Rightarrow> file_info list" where
  "getAvailableFiles st = map_values (availableFiles st)"

section \<open>Announcements\<close>

text \<open>
  \<^verbatim>\<open>const { peerId, fileId, fileName, fileSize, timestamp } = announcement\<close>:
  throws on null, and reads \<^verbatim>\<open>undefined\<close> for a property that is missing.
\<close>

definition destructure_announcement :: "json \<Rightarrow> js_error + file_info" where
  "destructure_announcement a =
     (case a of
        JNull \<Rightarrow> Inl null_read
      | JObj fs \<Rightarrow> Inr \<lparr>peerId = map_of fs ''peerId'', fileId = map_of fs ''fileId'',
                        fileName = map_of fs ''fileName'', fileSize = map_of fs ''fileSize'',
                        timestamp = map_of fs ''timestamp''\<rparr>
      | _ \<Rightarrow> Inr \<lparr>peerId = None, fileId = None, fileName = None, fileSize = None,
                   timestamp = None\<rparr>)"

text \<open>
  \<^verbatim>\<open>handleFileAnnouncement(announcement)\<close>; \<open>self\<close> is
  \<^verbatim>\<open>this.libp2p.peerId.toString()\<close>. The result is the \<^verbatim>\<open>fileInfo\<close> stored, or
  \<open>None\<close> for the bare \<^verbatim>\<open>return\<close>.
\<close>

definition handleFileAnnouncement ::
  "string \<Rightarrow> json \<Rightarrow> state \<Rightarrow> (js_error + file_info option) \<times> state" where
  "handleFileAnnouncement self announcement st =
     (case destructure_announcement announcement of
        Inl err \<Rightarrow> (Inl err, st)
      | Inr fileInfo \<Rightarrow>
          if peerId fileInfo = Some (JStr self) then (Inr None, st)
          else (Inr (Some fileInfo),
                st\<lparr>availableFiles := map_set (fileId fileInfo) fileInfo (availableFiles st)\<rparr>))"

text \<open>
  \<^verbatim>\<open>announceFile(fileData)\<close>. \<open>now\<close> is what \<^verbatim>\<open>Date.now()\<close> returns and
  \<open>publish\<close> what \<^verbatim>\<open>pubsub.publish\<close> does: \<open>None\<close> when it succeeds,
  \<open>Some err\<close> when it throws. After a successful publish the announcement is fed to
  \<^verbatim>\<open>handleFileAnnouncement\<close>.
\<close>

definition announcement_of :: "string \<Rightarrow> int \<Rightarrow> shared_file \<Rightarrow> json" where
  "announcement_of self now fileData =
     JObj [(''peerId'', JStr self), (''fileId'', JStr (sf_id fileData)),
           (''fileName'', JStr (sf_name fileData)), (''fileSize'', JNum (Finite (of_int (sf_size fileData)))),
           (''timestamp'', JNum (Finite (of_int now)))]"

definition announceFile ::
  "string \<Rightarrow> int \<Rightarrow> js_error option \<Rightarrow> shared_file \<Rightarrow> state \<Rightarrow> (js_error + unit) \<times> state" where
  "announceFile self now publish fileData st =
     (let announcement = announcement_of self now fileData in
      case publish of
        Some err \<Rightarrow> (Inl err, st)
      | None \<Rightarrow>
          (case handleFileAnnouncement self announcement st of
             (Inl err, st') \<Rightarrow> (Inl err, st')
           | (Inr r, st') \<Rightarrow> (Inr (), st')))"

section \<open>Sharing a file\<close>

text \<open>
  The \<^verbatim>\<open>File\<close> handed to \<^verbatim>\<open>shareFile\<close>, and what the environment does during the
  call: the string \<^verbatim>\<open>Math.random().toString(36).substr(2, 9)\<close> comes to, whether the
  \<^verbatim>\<open>FileReader\<close> fires \<^verbatim>\<open>onerror\<close> or \<^verbatim>\<open>onload\<close> (with the data URL), the two
  readings of the clock, and the outcome of the publish.
\<close>

record js_file =
  f_name :: string
  f_type :: string
  f_size :: int

datatype read_outcome = ReadError js_error | Loaded string

record share_env =
  random_id :: string
  reader :: read_outcome
  now_stored :: int
  now_announced :: int
  publish :: "js_error option"

definition fileData_of :: "share_env \<Rightarrow> js_file \<Rightarrow> string \<Rightarrow> shared_file" where
  "fileData_of env f result =
     \<lparr>sf_id = random_id env, sf_name = f_name f, sf_type = f_type f, sf_size = f_size f,
      sf_data = result, sf_timestamp = now_stored env\<rparr>"

text \<open>
  \<^verbatim>\<open>shareFile(file)\<close>: \<open>Inr fileId\<close> when the promise resolves, \<open>Inl err\<close> when it
  rejects; the state is returned in both cases.
\<close>

definition shareFile ::
  "string \<Rightarrow> share_env \<Rightarrow> js_file \<Rightarrow> state \<Rightarrow> (js_error + string) \<times> state" where
  "shareFile self env f st =
     (let fileId = random_id env in
      case reader env of
        ReadError err \<Rightarrow> (Inl err, st)
      | Loaded result \<Rightarrow>
          (let fileData = fileData_of env f result;
               st1 = st\<lparr>sharedFiles := map_set (Some (JStr fileId)) fileData (sharedFiles st)\<rparr>
           in case announceFile self (now_announced env) (publish env) fileData st1 of
                (Inl err, st2) \<Rightarrow> (Inl err, st2)
              | (Inr u, st2) \<Rightarrow> (Inr fileId, st2)))"

text \<open>\<^verbatim>\<open>window.removeSharedFile(fileId)\<close>: \<^verbatim>\<open>fileSharing.sharedFiles.delete(fileId)\<close>.\<close>

definition removeSharedFile :: "string \<Rightarrow> state \<Rightarrow> state" where
  "removeSharedFile fid st = st\<lparr>sharedFiles := map_delete (Some (JStr fid)) (sharedFiles st)\<rparr>"

section \<open>Streams\<close>

text \<open>
  The payload of one length-prefixed message is JSON text. It is represented by the value
  the text denotes, or by \<open>NotJson msg\<close> for bytes that \<^verbatim>\<open>JSON.parse\<close> rejects with a
  SyntaxError of message \<open>msg\<close> (\<^verbatim>\<open>JSON.stringify\<close>, \<^verbatim>\<open>JSON.parse\<close>, the UTF-8
  conversions and \<^verbatim>\<open>it-length-prefixed\<close> are not code of this repository).
\<close>

datatype frame = NotJson string | Json json

definition JSON_parse :: "frame \<Rightarrow> js_error + json" where
  "JSON_parse data = (case data of NotJson msg \<Rightarrow> Inl (JsError msg) | Json v \<Rightarrow> Inr v)"

text \<open>
  Reading: \<^verbatim>\<open>pipe(stream.source, lp.decode(), async source => { const arr = await
  all(source); return uint8ArrayToString(arr[0]) })\<close>. The source either fails or ends
  after some messages, of which the first is taken; with no message \<^verbatim>\<open>arr[0]\<close> is
  \<^verbatim>\<open>undefined\<close> and the conversion throws.
\<close>

definition undefined_read :: js_error where
  "undefined_read = JsError ''Cannot read properties of undefined''"

definition read_first :: "js_error + frame list \<Rightarrow> js_error + frame" where
  "read_first source =
     (case source of
        Inl err \<Rightarrow> Inl err
      | Inr [] \<Rightarrow> Inl undefined_read
      | Inr (data # rest) \<Rightarrow> Inr data)"

text \<open>
  Writing: \<^verbatim>\<open>pipe([uint8ArrayFromString(JSON.stringify(v))], lp.encode(), stream.sink)\<close>.
  \<open>outcomes\<close> is what the sink does at each successive write (\<open>None\<close>: the write
  succeeds; a sink with no outcome left accepts the write); \<open>attempted\<close> and
  \<open>delivered\<close> record the messages handed to the sink and those it accepted.
\<close>

record sink =
  outcomes :: "js_error option list"
  attempted :: "json list"
  delivered :: "json list"

definition open_sink :: "js_error option list \<Rightarrow> sink" where
  "open_sink os = \<lparr>outcomes = os, attempted = [], delivered = []\<rparr>"

definition send :: "json \<Rightarrow> sink \<Rightarrow> (js_error + unit) \<times> sink" where
  "send v s =
     (case outcomes s of
        Some err # os \<Rightarrow> (Inl err, s\<lparr>outcomes := os, attempted := attempted s @ [v]\<rparr>)
      | _ \<Rightarrow> (Inr (), s\<lparr>outcomes := tl (outcomes s), attempted := attempted s @ [v],
                          delivered := delivered s @ [v]\<rparr>))"

section \<open>The responder: the handler that setupProtocol registers\<close>

text \<open>\<^verbatim>\<open>JSON.stringify(fileData)\<close>, as the value it denotes.\<close>

definition json_of_fileData :: "shared_file \<Rightarrow> json" where
  "json_of_fileData fd =
     JObj [(''id'', JStr (sf_id fd)), (''name'', JStr (sf_name fd)), (''type'', JStr (sf_type fd)),
           (''size'', JNum (Finite (of_int (sf_size fd)))), (''data'', JStr (sf_data fd)),
           (''timestamp'', JNum (Finite (of_int (sf_timestamp fd))))]"

definition error_response :: "string \<Rightarrow> json" where
  "error_response msg = JObj [(''error'', JStr msg)]"

text \<open>\<^verbatim>\<open>const { type, fileId } = JSON.parse(data)\<close>.\<close>

definition destructure_request :: "json \<Rightarrow> js_error + jsval \<times> jsval" where
  "destructure_request req =
     (case get_prop req ''type'' of
        Inl err \<Rightarrow> Inl err
      | Inr type \<Rightarrow>
          (case get_prop req ''fileId'' of Inl err \<Rightarrow> Inl err | Inr fid \<Rightarrow> Inr (type, fid)))"

text \<open>
  The \<^verbatim>\<open>try\<close> block of the handler in the first listing of \<^verbatim>\<open>fileSharing.js\<close>
  (lines 21 to 42): a request that is not served is not answered.
\<close>

definition serve_1 :: "state \<Rightarrow> js_error + frame list \<Rightarrow> sink \<Rightarrow> (js_error + unit) \<times> sink" where
  "serve_1 st source s =
     (case read_first source of
        Inl err \<Rightarrow> (Inl err, s)
      | Inr data \<Rightarrow>
          (case JSON_parse data of
             Inl err \<Rightarrow> (Inl err, s)
           | Inr req \<Rightarrow>
               (case destructure_request req of
                  Inl err \<Rightarrow> (Inl err, s)
                | Inr (type, fid) \<Rightarrow>
                    if type = Some (JStr ''request'') \<and> map_has fid (sharedFiles st)
                    then (case map_get fid (sharedFiles st) of
                            Some fileData \<Rightarrow> send (json_of_fileData fileData) s
                          | None \<Rightarrow> (Inl undefined_read, s))
                    else (Inr (), s))))"

text \<open>The handler of the first listing: the \<^verbatim>\<open>catch\<close> logs and sends nothing.\<close>

definition handle_stream_1 :: "state \<Rightarrow> js_error + frame list \<Rightarrow> sink \<Rightarrow> (js_error + unit) \<times> sink" where
  "handle_stream_1 st source s =
     (case serve_1 st source s of
        (Inl err, s') \<Rightarrow> (Inr (), s')
      | (Inr u, s') \<Rightarrow> (Inr (), s'))"

text \<open>
  The \<^verbatim>\<open>try\<close> block of the handler in the second listing (lines 189 to 219): the
  \<^verbatim>\<open>else\<close> branch answers with an error object.
\<close>

definition serve_2 :: "state \<Rightarrow> js_error + frame list \<Rightarrow> sink \<Rightarrow> (js_error + unit) \<times> sink" where
  "serve_2 st source s =
     (case read_first source of
        Inl err \<Rightarrow> (Inl err, s)
      | Inr data \<Rightarrow>
          (case JSON_parse data of
             Inl err \<Rightarrow> (Inl err, s)
           | Inr req \<Rightarrow>
               (case destructure_request req of
                  Inl err \<Rightarrow> (Inl err, s)
                | Inr (type, fid) \<Rightarrow>
                    if type = Some (JStr ''request'') \<and> map_has fid (sharedFiles st)
                    then (case map_get fid (sharedFiles st) of
                            Some fileData \<Rightarrow> send (json_of_fileData fileData) s
                          | None \<Rightarrow> (Inl undefined_read, s))
                    else send (error_response ''File not found or invalid request'') s)))"

text \<open>
  The handler of the second listing: the \<^verbatim>\<open>catch\<close> (lines 220 to 231) sends
  \<^verbatim>\<open>{ error: err.message }\<close> and swallows a failure of that write.
\<close>

definition handle_stream_2 :: "state \<Rightarrow> js_error + frame list \<Rightarrow> sink \<Rightarrow> (js_error + unit) \<times> sink" where
  "handle_stream_2 st source s =
     (case serve_2 st source s of
        (Inl err, s') \<Rightarrow>
          (case send (error_response (message err)) s' of
             (Inl sendErr, s'') \<Rightarrow> (Inr (), s'')
           | (Inr u, s'') \<Rightarrow> (Inr (), s''))
      | (Inr u, s') \<Rightarrow> (Inr (), s'))"

section \<open>The requester\<close>

text \<open>
  What the environment does during \<^verbatim>\<open>requestFile\<close>: \<^verbatim>\<open>peerIdFromString\<close> may
  throw, \<^verbatim>\<open>dialProtocol\<close> may throw or give a stream or none, the writes to the sink
  have their outcomes, and what can be read from the stream is the remote peer's answer to
  the messages delivered to it. \<open>numberToString\<close> is the engine's Number::toString, for
  the numbers that do not print as whole decimals.
\<close>

record request_env =
  peerIdFromString :: "string \<Rightarrow> js_error option"
  dialProtocol :: "string \<Rightarrow> js_error + bool"
  writes :: "js_error option list"
  remote :: "json list \<Rightarrow> js_error + frame list"
  numberToString :: "rat \<Rightarrow> string"

definition request_message :: "string \<Rightarrow> json" where
  "request_message fid = JObj [(''type'', JStr ''request''), (''fileId'', JStr fid)]"

text \<open>
  \<^verbatim>\<open>requestFile(peerId, fileId)\<close> of the first listing (lines 116 to 137): whatever
  was decoded is returned. When the dial gives no stream, \<^verbatim>\<open>stream.sink\<close> throws.
\<close>

definition requestFile_1 :: "request_env \<Rightarrow> string \<Rightarrow> string \<Rightarrow> js_error + json" where
  "requestFile_1 env pid fid =
     (case dialProtocol env pid of
        Inl err \<Rightarrow> Inl err
      | Inr stream \<Rightarrow>
          if \<not> stream then Inl undefined_read
          else (case send (request_message fid) (open_sink (writes env)) of
                  (Inl err, s) \<Rightarrow> Inl err
                | (Inr u, s) \<Rightarrow>
                    (case read_first (remote env (delivered s)) of
                       Inl err \<Rightarrow> Inl err
                     | Inr data \<Rightarrow>
                         (case JSON_parse data of
                            Inl err \<Rightarrow> Inl err
                          | Inr response \<Rightarrow> Inr response))))"

text \<open>
  The \<^verbatim>\<open>try\<close> block of \<^verbatim>\<open>requestFile\<close> in the second listing (lines 305 to
  356). The template literal of line 352 converts \<^verbatim>\<open>response.error\<close> to a string,
  which can throw.
\<close>

definition request_2 :: "request_env \<Rightarrow> string \<Rightarrow> string \<Rightarrow> js_error + json" where
  "request_2 env pid fid =
     (case peerIdFromString env pid of
        Some err \<Rightarrow> Inl (JsError (''Invalid peer ID format: '' @ message err))
      | None \<Rightarrow>
          (case dialProtocol env pid of
             Inl err \<Rightarrow> Inl err
           | Inr stream \<Rightarrow>
               if \<not> stream then Inl (JsError ''Protocol stream establishment failed'')
               else (case send (request_message fid) (open_sink (writes env)) of
                       (Inl err, s) \<Rightarrow> Inl err
                     | (Inr u, s) \<Rightarrow>
                         (case read_first (remote env (delivered s)) of
                            Inl err \<Rightarrow> Inl err
                          | Inr data \<Rightarrow>
                              (case JSON_parse data of
                                 Inl err \<Rightarrow> Inl err
                               | Inr response \<Rightarrow>
                                   (case get_prop response ''error'' of
                                      Inl err \<Rightarrow> Inl err
                                    | Inr e \<Rightarrow>
                                        if truthy e
                                        then (case template (numberToString env) e of
                                                Inl err \<Rightarrow> Inl err
                                              | Inr text \<Rightarrow>
                                                  Inl (JsError (''Peer response error: '' @ text)))
                                        else Inr response))))))"

text \<open>
  \<^verbatim>\<open>requestFile(peerId, fileId)\<close> of the second listing: the \<^verbatim>\<open>catch\<close> (lines
  358 to 365) rethrows every error under a new message.
\<close>

definition requestFile_2 :: "request_env \<Rightarrow> string \<Rightarrow> string \<Rightarrow> js_error + json" where
  "requestFile_2 env pid fid =
     (case request_2 env pid fid of
        Inl err \<Rightarrow> Inl (JsError (''Failed to request file: '' @ message err))
      | Inr response \<Rightarrow> Inr response)"

section \<open>The application around the FileSharing object\<close>

text \<open>
  The listener of the pubsub \<^verbatim>\<open>message\<close> event: a message on another topic is
  ignored, and so is one that does not parse or whose handling throws.
\<close>

definition FILE_ANNOUNCE_TOPIC :: string where
  "FILE_ANNOUNCE_TOPIC = ''file-announce-v1''"

definition on_message :: "string \<Rightarrow> string \<Rightarrow> frame \<Rightarrow> state \<Rightarrow> state" where
  "on_message self topic data st =
     (if topic \<noteq> FILE_ANNOUNCE_TOPIC then st
      else (case JSON_parse data of
              Inl err \<Rightarrow> st
            | Inr announcement \<Rightarrow> snd (handleFileAnnouncement self announcement st)))"

text \<open>
  The listener of \<^verbatim>\<open>peer:connect\<close>: every shared file is announced again, in the order
  of \<^verbatim>\<open>getSharedFiles()\<close>, until an announcement throws. \<open>env\<close> gives the clock and
  the outcome of the publish for each file.
\<close>

fun announce_each ::
  "string \<Rightarrow> (shared_file \<Rightarrow> int \<times> js_error option) \<Rightarrow> shared_file list \<Rightarrow> state
     \<Rightarrow> (js_error + unit) \<times> state" where
  "announce_each self env [] st = (Inr (), st)"
| "announce_each self env (fd # fds) st =
     (case announceFile self (fst (env fd)) (snd (env fd)) fd st of
        (Inl err, st') \<Rightarrow> (Inl err, st')
      | (Inr u, st') \<Rightarrow> announce_each self env fds st')"

definition on_peer_connect ::
  "string \<Rightarrow> (shared_file \<Rightarrow> int \<times> js_error option) \<Rightarrow> state \<Rightarrow> state" where
  "on_peer_connect self env st = snd (announce_each self env (getSharedFiles st) st)"

text \<open>
  What can happen to a FileSharing object during the life of the page: a file is chosen
  (\<^verbatim>\<open>shareFile\<close>), a Remove button is clicked, a pubsub message arrives, a peer
  connects, a Download button is clicked (\<^verbatim>\<open>requestFile\<close>), a stream comes in
  (the handler). The last two assign to no table, in either listing. Each event runs to
  its end before the next one starts.
\<close>

datatype event =
    FileChosen share_env js_file
  | RemoveClicked string
  | Message string frame
  | PeerConnected "shared_file \<Rightarrow> int \<times> js_error option"
  | DownloadClicked request_env string string
  | StreamOpened "js_error + frame list" "js_error option list"

fun step :: "string \<Rightarrow> state \<Rightarrow> event \<Rightarrow> state" where
  "step self st (FileChosen env f) = snd (shareFile self env f st)"
| "step self st (RemoveClicked fid) = removeSharedFile fid st"
| "step self st (Message topic data) = on_message self topic data st"
| "step self st (PeerConnected env) = on_peer_connect self env st"
| "step self st (DownloadClicked env pid fid) = st"
| "step self st (StreamOpened source os) = st"

definition run :: "string \<Rightarrow> event list \<Rightarrow> state" where
  "run self evs = foldl (step self) init evs"

text \<open>
  The events that can take the entry of id \<open>i\<close> out of the shared table: a click on its
  Remove button, and a \<^verbatim>\<open>shareFile\<close> that draws the same id and gets as far as the
  \<^verbatim>\<open>set\<close>.
\<close>

fun removes :: "string \<Rightarrow> event \<Rightarrow> bool" where
  "removes i (RemoveClicked fid) = (fid = i)"
| "removes i e = False"

fun redraws :: "string \<Rightarrow> event \<Rightarrow> bool" where
  "redraws i (FileChosen env f) =
     (random_id env = i \<and> (case reader env of Loaded result \<Rightarrow> True | ReadError err \<Rightarrow> False))"
| "redraws i e = False"

text \<open>
  A stream between a requester and a peer that runs the handler on the state \<open>st\<close>: what
  the requester reads is what the handler's sink accepted, on a stream that loses nothing.
\<close>

definition responder_1 :: "state \<Rightarrow> json list \<Rightarrow> js_error + frame list" where
  "responder_1 st reqs =
     Inr (map Json (delivered (snd (handle_stream_1 st (Inr (map Json reqs)) (open_sink [])))))"

definition responder_2 :: "state \<Rightarrow> json list \<Rightarrow> js_error + frame list" where
  "responder_2 st reqs =
     Inr (map Json (delivered (snd (handle_stream_2 st (Inr (map Json reqs)) (open_sink [])))))"

text \<open>A peer that answers whatever it is sent with the messages \<open>fs\<close>.\<close>

definition replies :: "frame list \<Rightarrow> json list \<Rightarrow> js_error + frame list" where
  "replies fs reqs = Inr fs"

definition reachable_peer :: "(json list \<Rightarrow> js_error + frame list) \<Rightarrow> request_env" where
  "reachable_peer r =
     \<lparr>peerIdFromString = (\<lambda>p. None), dialProtocol = (\<lambda>p. Inr True), writes = [], remote = r,
      numberToString = (\<lambda>n. [])\<rparr>"

section \<open>Invariants of the tables\<close>

text \<open>
  A key that the Map compares by value. In a table that is \<open>keyed\<close> by \<open>kf\<close>, every
  entry stands under the key that \<open>kf\<close> reads in it, and no such key stands twice.
\<close>

fun primitive :: "jsval \<Rightarrow> bool" where
  "primitive (Some (JArr xs)) = False"
| "primitive (Some (JObj fs)) = False"
| "primitive k = True"

definition keyed :: "('v \<Rightarrow> jsval) \<Rightarrow> 'v js_map \<Rightarrow> bool" where
  "keyed kf m = (list_all (\<lambda>(k, v). kf v = k) m \<and> distinct (filter primitive (map fst m)))"

definition file_key :: "shared_file \<Rightarrow> jsval" where
  "file_key fd = Some (JStr (sf_id fd))"

text \<open>
  A call of \<^verbatim>\<open>requestFile\<close> gets through to the peer: the peer id parses, the dial
  gives a stream, and the write of the request succeeds.
\<close>

definition connected :: "request_env \<Rightarrow> string \<Rightarrow> bool" where
  "connected env pid =
     (peerIdFromString env pid = None \<and> dialProtocol env pid = Inr True \<and>
      (case writes env of Some err # os \<Rightarrow> False | _ \<Rightarrow> True))"

definition wf_state :: "state \<Rightarrow> bool" where
  "wf_state st = (keyed file_key (sharedFiles st) \<and> keyed fileId (availableFiles st))"

section \<open>Properties of the Map model\<close>

lemma same_value_zero_iff: "same_value_zero k k' \<longleftrightarrow> primitive k \<and> k = k'"
  by (induction k k' rule: same_value_zero.induct) auto

lemma map_set_fresh_reference: "\<not> primitive k \<Longrightarrow> map_set k v m = m @ [(k, v)]"
  by (induction m) (auto simp: same_value_zero_iff)

lemma map_get_map_set_same: "primitive k \<Longrightarrow> map_get k (map_set k v m) = Some v"
  by (induction m) (auto simp: same_value_zero_iff)

lemma map_get_map_set_other: "k \<noteq> k' \<Longrightarrow> map_get k (map_set k' v m) = map_get k m"
  by (induction m) (auto simp: same_value_zero_iff)

lemma map_get_map_delete_other: "k \<noteq> k' \<Longrightarrow> map_get k (map_delete k' m) = map_get k m"
  by (induction m) (auto simp: same_value_zero_iff)

lemma map_get_in_values: "map_get k m = Some v \<Longrightarrow> v \<in> set (map snd m)"
  by (induction m) (auto split: if_splits)

lemma keys_map_set:
  "map fst (map_set k v m) =
     (if primitive k \<and> k \<in> set (map fst m) then map fst m else map fst m @ [k])"
  by (induction m) (auto simp: same_value_zero_iff split: if_splits)

lemma keys_map_delete:
  "map fst (map_delete k m) = (if primitive k then remove1 k (map fst m) else map fst m)"
  by (induction m) (auto simp: same_value_zero_iff)

lemma entries_map_set: "set (map_set k v m) \<subseteq> insert (k, v) (set m)"
  by (induction m) (auto simp: same_value_zero_iff split: if_splits)

lemma entries_map_delete: "set (map_delete k m) \<subseteq> set m"
  by (induction m) (auto split: if_splits)

lemma keyed_Nil: "keyed kf []"
  by (simp add: keyed_def)

lemma keyed_Cons:
  "keyed kf ((k, v) # m) \<longleftrightarrow>
     kf v = k \<and> (primitive k \<longrightarrow> k \<notin> set (map fst m)) \<and> keyed kf m"
  by (auto simp: keyed_def)

lemma keyed_map_set: "keyed kf m \<Longrightarrow> kf v = k \<Longrightarrow> keyed kf (map_set k v m)"
  unfolding keyed_def using entries_map_set [of k v m]
  by (auto simp: keys_map_set list_all_iff)

lemma keyed_map_delete: "keyed kf m \<Longrightarrow> keyed kf (map_delete k m)"
  unfolding keyed_def using entries_map_delete [of k m]
  by (auto simp: keys_map_delete list_all_iff filter_remove1)

lemma keyed_absent:
  "keyed kf m \<Longrightarrow> k \<notin> set (map fst m) \<Longrightarrow> filter (\<lambda>x. kf x = k) (map snd m) = []"
  by (induction m) (auto simp: keyed_Cons)

text \<open>After \<^verbatim>\<open>set(k, v)\<close> the values that read the key \<open>k\<close> are \<open>v\<close> and nothing else.\<close>

lemma keyed_one_entry:
  assumes "keyed kf m" and "primitive k" and "kf v = k"
  shows "filter (\<lambda>x. kf x = k) (map snd (map_set k v m)) = [v]"
  using assms
proof (induction m)
  case Nil
  then show ?case by simp
next
  case (Cons p m)
  obtain k' v' where p: "p = (k', v')" by (cases p)
  show ?case
  proof (cases "k' = k")
    case True
    with Cons.prems p have "keyed kf m" and "k \<notin> set (map fst m)"
      by (auto simp: keyed_Cons)
    then have "filter (\<lambda>x. kf x = k) (map snd m) = []"
      by (rule keyed_absent)
    with True Cons.prems p show ?thesis
      by (simp add: same_value_zero_iff)
  next
    case False
    with Cons p show ?thesis
      by (auto simp: keyed_Cons same_value_zero_iff)
  qed
qed

text \<open>Two values under one primitive key do not both stay in the table.\<close>

lemma keyed_distinct_ids: "keyed file_key m \<Longrightarrow> distinct (map sf_id (map snd m))"
proof (induction m)
  case Nil
  then show ?case by simp
next
  case (Cons p m)
  obtain k v where p: "p = (k, v)" by (cases p)
  have "primitive (file_key v)"
    by (simp add: file_key_def)
  with Cons.prems p have k: "k = file_key v" "k \<notin> set (map fst m)" "keyed file_key m"
    by (auto simp: keyed_Cons)
  have "sf_id v \<notin> set (map sf_id (map snd m))"
  proof
    assume "sf_id v \<in> set (map sf_id (map snd m))"
    then obtain q where q: "q \<in> set m" "sf_id (snd q) = sf_id v" by auto
    with k(3) have "fst q = file_key (snd q)"
      by (auto simp: keyed_def list_all_iff)
    with q k(1) have "fst q = k" by (simp add: file_key_def)
    with q(1) k(2) show False by force
  qed
  with Cons p k show ?case by simp
qed

section \<open>What each operation does to the tables\<close>

lemma destructure_peerId:
  "destructure_announcement a = Inr fi \<Longrightarrow> get_prop a ''peerId'' = Inr (peerId fi)"
  by (cases a) (auto simp: destructure_announcement_def)

lemma destructure_total:
  "get_prop a p = Inr x \<Longrightarrow> \<exists>fi. destructure_announcement a = Inr fi"
  by (cases a) (auto simp: destructure_announcement_def)

lemma handle_shared: "sharedFiles (snd (handleFileAnnouncement self a st)) = sharedFiles st"
  by (simp add: handleFileAnnouncement_def split: sum.splits)

lemma handle_keyed:
  "keyed fileId (availableFiles st) \<Longrightarrow>
     keyed fileId (availableFiles (snd (handleFileAnnouncement self a st)))"
  by (simp add: handleFileAnnouncement_def keyed_map_set split: sum.splits)

lemma handle_own_announcement:
  "handleFileAnnouncement self (announcement_of self now fd) st = (Inr None, st)"
  by (simp add: handleFileAnnouncement_def announcement_of_def destructure_announcement_def)

lemma announceFile_state: "snd (announceFile self now pub fd st) = st"
  by (simp add: announceFile_def handle_own_announcement split: option.splits)

lemma announce_each_state: "snd (announce_each self env fds st) = st"
proof (induction fds)
  case Nil
  show ?case by simp
next
  case (Cons fd fds)
  have "snd (announceFile self (fst (env fd)) (snd (env fd)) fd st) = st"
    by (rule announceFile_state)
  with Cons show ?case
    by (cases "announceFile self (fst (env fd)) (snd (env fd)) fd st")
       (auto split: sum.splits)
qed

lemma shareFile_state:
  "snd (shareFile self env f st) =
     (case reader env of
        ReadError err \<Rightarrow> st
      | Loaded result \<Rightarrow>
          st\<lparr>sharedFiles := map_set (Some (JStr (random_id env))) (fileData_of env f result)
                               (sharedFiles st)\<rparr>)"
proof (cases "reader env")
  case (ReadError err)
  then show ?thesis by (simp add: shareFile_def)
next
  case (Loaded result)
  let ?st1 = "st\<lparr>sharedFiles := map_set (Some (JStr (random_id env))) (fileData_of env f result)
                                   (sharedFiles st)\<rparr>"
  have "snd (announceFile self (now_announced env) (publish env) (fileData_of env f result) ?st1)
          = ?st1"
    by (rule announceFile_state)
  with Loaded show ?thesis
    by (cases "announceFile self (now_announced env) (publish env) (fileData_of env f result) ?st1")
       (auto simp: shareFile_def Let_def split: sum.splits)
qed

lemma step_wf: "wf_state st \<Longrightarrow> wf_state (step self st e)"
proof (cases e)
  case (FileChosen env f)
  assume "wf_state st"
  then show ?thesis
    unfolding FileChosen
    by (auto simp: wf_state_def shareFile_state fileData_of_def file_key_def
        intro!: keyed_map_set split: read_outcome.splits)
next
  case (RemoveClicked fid)
  assume "wf_state st"
  then show ?thesis
    unfolding RemoveClicked by (simp add: wf_state_def removeSharedFile_def keyed_map_delete)
next
  case (Message topic data)
  assume "wf_state st"
  then show ?thesis
    unfolding Message
    by (simp add: wf_state_def on_message_def handle_shared handle_keyed split: sum.splits)
next
  case (PeerConnected env)
  assume "wf_state st"
  then show ?thesis
    unfolding PeerConnected by (simp add: on_peer_connect_def announce_each_state)
qed simp_all

lemma run_snoc: "run self (evs @ [e]) = step self (run self evs) e"
  by (simp add: run_def)

lemma run_wf: "wf_state (run self evs)"
proof (induction evs rule: rev_induct)
  case Nil
  show ?case by (simp add: run_def init_def wf_state_def keyed_Nil)
next
  case (snoc e evs)
  then show ?case by (simp add: run_snoc step_wf)
qed

section \<open>Announcements: the claims\<close>

text \<open>
  C3. An announcement whose \<^verbatim>\<open>peerId\<close> is the local peer's own identity changes
  nothing and \<^verbatim>\<open>handleFileAnnouncement\<close> returns \<^verbatim>\<open>undefined\<close>. This covers the
  call that \<^verbatim>\<open>announceFile\<close> makes on its own announcement after the publish: the
  state after \<^verbatim>\<open>announceFile\<close> is the state before it, and \<^verbatim>\<open>shareFile\<close> leaves
  the table of available files as it was.
\<close>

theorem self_announcement_dropped:
  assumes "get_prop a ''peerId'' = Inr (Some (JStr self))"
  shows "handleFileAnnouncement self a st = (Inr None, st) \<and>
         announceFile self now None fd st = (Inr (), st) \<and>
         availableFiles (snd (shareFile self env f st)) = availableFiles st"
proof -
  from assms obtain fi where fi: "destructure_announcement a = Inr fi"
    using destructure_total by blast
  with assms have "peerId fi = Some (JStr self)"
    using destructure_peerId [OF fi] by simp
  with fi have "handleFileAnnouncement self a st = (Inr None, st)"
    by (simp add: handleFileAnnouncement_def)
  moreover have "announceFile self now None fd st = (Inr (), st)"
    by (simp add: announceFile_def handle_own_announcement)
  moreover have "availableFiles (snd (shareFile self env f st)) = availableFiles st"
    by (simp add: shareFile_state split: read_outcome.splits)
  ultimately show ?thesis by simp
qed

theorem self_announcement_dropped_witness:
  "get_prop (JObj [(''peerId'', JStr ''QmSelf''), (''fileId'', JStr ''abc123xyz''),
                   (''fileName'', JStr ''a.txt''), (''fileSize'', JNum (Finite 1024)),
                   (''timestamp'', JNum (Finite 1700000000000))]) ''peerId'' = Inr (Some (JStr ''QmSelf'')) \<and>
   handleFileAnnouncement ''QmSelf''
     (JObj [(''peerId'', JStr ''QmSelf''), (''fileId'', JStr ''abc123xyz''),
            (''fileName'', JStr ''a.txt''), (''fileSize'', JNum (Finite 1024)),
            (''timestamp'', JNum (Finite 1700000000000))]) init = (Inr None, init)"
  using self_announcement_dropped
    [of "JObj [(''peerId'', JStr ''QmSelf''), (''fileId'', JStr ''abc123xyz''),
               (''fileName'', JStr ''a.txt''), (''fileSize'', JNum (Finite 1024)),
               (''timestamp'', JNum (Finite 1700000000000))]" "''QmSelf''" init]
  by simp

text \<open>
  C4. Two announcements with the same \<^verbatim>\<open>fileId\<close>, processed one after the other in
  any state the program reaches: after the first, the one record of that \<^verbatim>\<open>fileId\<close>
  is the first announcement's; after the second, the one record of that \<^verbatim>\<open>fileId\<close>
  is the second announcement's, field by field. No timestamp is compared. The two
  \<^verbatim>\<open>fileId\<close>s are the same as the Map compares keys: equal strings, as the
  announcements of this program carry, or equal primitives of another kind.
\<close>

theorem last_announcement_wins:
  assumes "destructure_announcement a1 = Inr i1" and "destructure_announcement a2 = Inr i2"
    and "peerId i1 \<noteq> Some (JStr self)" and "peerId i2 \<noteq> Some (JStr self)"
    and "same_value_zero (fileId i1) (fileId i2)"
  shows "filter (\<lambda>r. fileId r = fileId i2)
           (getAvailableFiles (snd (handleFileAnnouncement self a1 (run self evs)))) = [i1] \<and>
         filter (\<lambda>r. fileId r = fileId i2)
           (getAvailableFiles (snd (handleFileAnnouncement self a2
              (snd (handleFileAnnouncement self a1 (run self evs)))))) = [i2]"
proof -
  let ?st0 = "run self evs"
  let ?st1 = "snd (handleFileAnnouncement self a1 ?st0)"
  have k0: "keyed fileId (availableFiles ?st0)"
    using run_wf [of self evs] by (simp add: wf_state_def)
  then have k1: "keyed fileId (availableFiles ?st1)"
    by (rule handle_keyed)
  have same: "fileId i1 = fileId i2" and prim: "primitive (fileId i2)"
    using assms(5) by (auto simp: same_value_zero_iff)
  have s1: "availableFiles ?st1 = map_set (fileId i1) i1 (availableFiles ?st0)"
    using assms(1,3) by (simp add: handleFileAnnouncement_def)
  have s2: "availableFiles (snd (handleFileAnnouncement self a2 ?st1))
              = map_set (fileId i2) i2 (availableFiles ?st1)"
    using assms(2,4) by (simp add: handleFileAnnouncement_def)
  have "filter (\<lambda>r. fileId r = fileId i1) (map snd (map_set (fileId i1) i1 (availableFiles ?st0)))
          = [i1]"
    using k0 same prim by (intro keyed_one_entry) simp_all
  moreover have "filter (\<lambda>r. fileId r = fileId i2)
                   (map snd (map_set (fileId i2) i2 (availableFiles ?st1))) = [i2]"
    using k1 prim by (intro keyed_one_entry) simp_all
  ultimately show ?thesis
    using same by (simp add: getAvailableFiles_def map_values_def s1 s2)
qed

theorem last_announcement_wins_witness:
  "destructure_announcement
     (JObj [(''peerId'', JStr ''QmPeer''), (''fileId'', JStr ''f1''), (''fileName'', JStr ''old.txt''),
            (''fileSize'', JNum (Finite 10)), (''timestamp'', JNum (Finite 200))])
     = Inr \<lparr>peerId = Some (JStr ''QmPeer''), fileId = Some (JStr ''f1''),
             fileName = Some (JStr ''old.txt''), fileSize = Some (JNum (Finite 10)),
             timestamp = Some (JNum (Finite 200))\<rparr> \<and>
   same_value_zero (Some (JStr ''f1'')) (Some (JStr ''f1'')) \<and>
   filter (\<lambda>r. fileId r = Some (JStr ''f1''))
     (getAvailableFiles (snd (handleFileAnnouncement ''QmSelf''
        (JObj [(''peerId'', JStr ''QmOther''), (''fileId'', JStr ''f1''),
               (''fileName'', JStr ''new.txt''), (''fileSize'', JNum (Finite 20)), (''timestamp'', JNum (Finite 100))])
        (snd (handleFileAnnouncement ''QmSelf''
           (JObj [(''peerId'', JStr ''QmPeer''), (''fileId'', JStr ''f1''),
                  (''fileName'', JStr ''old.txt''), (''fileSize'', JNum (Finite 10)),
                  (''timestamp'', JNum (Finite 200))])
           (run ''QmSelf'' []))))))
     = [\<lparr>peerId = Some (JStr ''QmOther''), fileId = Some (JStr ''f1''),
          fileName = Some (JStr ''new.txt''), fileSize = Some (JNum (Finite 20)),
          timestamp = Some (JNum (Finite 100))\<rparr>]"
  using last_announcement_wins
    [of "JObj [(''peerId'', JStr ''QmPeer''), (''fileId'', JStr ''f1''),
               (''fileName'', JStr ''old.txt''), (''fileSize'', JNum (Finite 10)), (''timestamp'', JNum (Finite 200))]"
        "\<lparr>peerId = Some (JStr ''QmPeer''), fileId = Some (JStr ''f1''),
          fileName = Some (JStr ''old.txt''), fileSize = Some (JNum (Finite 10)),
          timestamp = Some (JNum (Finite 200))\<rparr>"
        "JObj [(''peerId'', JStr ''QmOther''), (''fileId'', JStr ''f1''),
               (''fileName'', JStr ''new.txt''), (''fileSize'', JNum (Finite 20)), (''timestamp'', JNum (Finite 100))]"
        "\<lparr>peerId = Some (JStr ''QmOther''), fileId = Some (JStr ''f1''),
          fileName = Some (JStr ''new.txt''), fileSize = Some (JNum (Finite 20)),
          timestamp = Some (JNum (Finite 100))\<rparr>"
        "''QmSelf''" "[]"]
  by (simp add: destructure_announcement_def)

section \<open>Sharing: the claims\<close>

text \<open>
  C5. In any state the program reaches, when \<^verbatim>\<open>shareFile(file)\<close> resolves with
  \<open>fid\<close>, the list that \<^verbatim>\<open>getSharedFiles()\<close> returns has exactly one entry whose
  \<^verbatim>\<open>id\<close> is \<open>fid\<close>, and that entry has the name and the size of the file.
\<close>

theorem shareFile_then_getSharedFiles:
  assumes "shareFile self env f (run self evs) = (Inr fid, st')"
  shows "\<exists>fd. filter (\<lambda>x. sf_id x = fid) (getSharedFiles st') = [fd] \<and>
              sf_id fd = fid \<and> sf_name fd = f_name f \<and> sf_size fd = f_size f"
proof -
  let ?st = "run self evs"
  from assms obtain result where r: "reader env = Loaded result"
    by (cases "reader env") (auto simp: shareFile_def)
  let ?fd = "fileData_of env f result"
  have fid: "fid = random_id env"
    using assms r
    by (auto simp: shareFile_def Let_def split: prod.splits sum.splits)
  have "st' = snd (shareFile self env f ?st)"
    using assms by simp
  with r have st': "sharedFiles st' = map_set (file_key ?fd) ?fd (sharedFiles ?st)"
    by (simp add: shareFile_state file_key_def fileData_of_def)
  have "keyed file_key (sharedFiles ?st)"
    using run_wf [of self evs] by (simp add: wf_state_def)
  moreover have "primitive (file_key ?fd)"
    by (simp add: file_key_def)
  ultimately have "filter (\<lambda>x. file_key x = file_key ?fd)
               (map snd (map_set (file_key ?fd) ?fd (sharedFiles ?st))) = [?fd]"
    by (rule keyed_one_entry) simp
  moreover have "(\<lambda>x. file_key x = file_key ?fd) = (\<lambda>x. sf_id x = fid)"
    by (simp add: file_key_def fileData_of_def fid)
  ultimately have "filter (\<lambda>x. sf_id x = fid) (getSharedFiles st') = [?fd]"
    by (simp add: getSharedFiles_def map_values_def st')
  then show ?thesis
    by (intro exI [of _ ?fd]) (simp add: fileData_of_def fid)
qed

theorem shareFile_then_getSharedFiles_witness:
  "shareFile ''QmSelf''
      \<lparr>random_id = ''k3j9x0q1z'', reader = Loaded ''data:text/plain;base64,aGk='',
       now_stored = 1700000000000, now_announced = 1700000000001, publish = None\<rparr>
      \<lparr>f_name = ''a.txt'', f_type = ''text/plain'', f_size = 2\<rparr> (run ''QmSelf'' [])
    = (Inr ''k3j9x0q1z'',
       \<lparr>sharedFiles =
          [(Some (JStr ''k3j9x0q1z''),
            \<lparr>sf_id = ''k3j9x0q1z'', sf_name = ''a.txt'', sf_type = ''text/plain'', sf_size = 2,
             sf_data = ''data:text/plain;base64,aGk='', sf_timestamp = 1700000000000\<rparr>)],
        availableFiles = []\<rparr>) \<and>
   (\<exists>fd. filter (\<lambda>x. sf_id x = ''k3j9x0q1z'')
           (getSharedFiles
              \<lparr>sharedFiles =
                 [(Some (JStr ''k3j9x0q1z''),
                   \<lparr>sf_id = ''k3j9x0q1z'', sf_name = ''a.txt'', sf_type = ''text/plain'',
                    sf_size = 2, sf_data = ''data:text/plain;base64,aGk='',
                    sf_timestamp = 1700000000000\<rparr>)],
               availableFiles = []\<rparr>) = [fd] \<and>
         sf_id fd = ''k3j9x0q1z'' \<and> sf_name fd = ''a.txt'' \<and> sf_size fd = 2)"
proof -
  have h: "shareFile ''QmSelf''
      \<lparr>random_id = ''k3j9x0q1z'', reader = Loaded ''data:text/plain;base64,aGk='',
       now_stored = 1700000000000, now_announced = 1700000000001, publish = None\<rparr>
      \<lparr>f_name = ''a.txt'', f_type = ''text/plain'', f_size = 2\<rparr> (run ''QmSelf'' [])
    = (Inr ''k3j9x0q1z'',
       \<lparr>sharedFiles =
          [(Some (JStr ''k3j9x0q1z''),
            \<lparr>sf_id = ''k3j9x0q1z'', sf_name = ''a.txt'', sf_type = ''text/plain'', sf_size = 2,
             sf_data = ''data:text/plain;base64,aGk='', sf_timestamp = 1700000000000\<rparr>)],
        availableFiles = []\<rparr>)"
    by (simp add: shareFile_def Let_def run_def init_def fileData_of_def announceFile_def
        handle_own_announcement)
  from shareFile_then_getSharedFiles [OF h] h show ?thesis
    by simp
qed

text \<open>
  C7. When the file has been read and the publish inside \<^verbatim>\<open>announceFile\<close> throws,
  \<^verbatim>\<open>shareFile\<close> rejects with that error, and the entry that it had put into the
  shared table is still there: it is what \<^verbatim>\<open>sharedFiles.get\<close> returns under the id,
  and it is in the list of \<^verbatim>\<open>getSharedFiles()\<close>.
\<close>

theorem publish_failure_keeps_file:
  assumes "reader env = Loaded result" and "publish env = Some err"
  shows "fst (shareFile self env f st) = Inl err \<and>
         map_get (Some (JStr (random_id env))) (sharedFiles (snd (shareFile self env f st)))
           = Some (fileData_of env f result) \<and>
         fileData_of env f result \<in> set (getSharedFiles (snd (shareFile self env f st)))"
proof -
  let ?k = "Some (JStr (random_id env))"
  let ?fd = "fileData_of env f result"
  have "fst (shareFile self env f st) = Inl err"
    using assms by (simp add: shareFile_def announceFile_def)
  moreover have s: "sharedFiles (snd (shareFile self env f st)) = map_set ?k ?fd (sharedFiles st)"
    using assms(1) by (simp add: shareFile_state)
  moreover have g: "map_get ?k (map_set ?k ?fd (sharedFiles st)) = Some ?fd"
    by (rule map_get_map_set_same) simp
  moreover have "?fd \<in> set (map snd (map_set ?k ?fd (sharedFiles st)))"
    using map_get_in_values [OF g] .
  ultimately show ?thesis
    by (simp add: getSharedFiles_def map_values_def)
qed

theorem publish_failure_keeps_file_witness:
  "fst (shareFile ''QmSelf''
      \<lparr>random_id = ''k3j9x0q1z'', reader = Loaded ''data:text/plain;base64,aGk='',
       now_stored = 1700000000000, now_announced = 1700000000001,
       publish = Some (JsError ''PublishError.NoPeersSubscribedToTopic'')\<rparr>
      \<lparr>f_name = ''a.txt'', f_type = ''text/plain'', f_size = 2\<rparr> init)
     = Inl (JsError ''PublishError.NoPeersSubscribedToTopic'') \<and>
   map sf_name (getSharedFiles (snd (shareFile ''QmSelf''
      \<lparr>random_id = ''k3j9x0q1z'', reader = Loaded ''data:text/plain;base64,aGk='',
       now_stored = 1700000000000, now_announced = 1700000000001,
       publish = Some (JsError ''PublishError.NoPeersSubscribedToTopic'')\<rparr>
      \<lparr>f_name = ''a.txt'', f_type = ''text/plain'', f_size = 2\<rparr> init))) = [''a.txt'']"
  using publish_failure_keeps_file
    [of "\<lparr>random_id = ''k3j9x0q1z'', reader = Loaded ''data:text/plain;base64,aGk='',
          now_stored = 1700000000000, now_announced = 1700000000001,
          publish = Some (JsError ''PublishError.NoPeersSubscribedToTopic'')\<rparr>"
        "''data:text/plain;base64,aGk=''" "JsError ''PublishError.NoPeersSubscribedToTopic''"
        "''QmSelf''" "\<lparr>f_name = ''a.txt'', f_type = ''text/plain'', f_size = 2\<rparr>" init]
  by (simp add: shareFile_state init_def getSharedFiles_def map_values_def fileData_of_def)

text \<open>One event leaves an entry where it is, unless it removes it or draws its id again.\<close>

lemma step_keeps_entry:
  assumes "map_get (Some (JStr i)) (sharedFiles st) = Some fd"
    and "\<not> removes i e" and "\<not> redraws i e"
  shows "map_get (Some (JStr i)) (sharedFiles (step self st e)) = Some fd"
proof (cases e)
  case (FileChosen env f)
  show ?thesis
  proof (cases "reader env")
    case (ReadError err)
    with assms(1) FileChosen show ?thesis by (simp add: shareFile_state)
  next
    case (Loaded result)
    with assms(3) FileChosen have "Some (JStr i) \<noteq> Some (JStr (random_id env))" by auto
    with assms(1) FileChosen Loaded show ?thesis
      by (simp add: shareFile_state map_get_map_set_other)
  qed
next
  case (RemoveClicked fid)
  with assms(2) have "Some (JStr i) \<noteq> Some (JStr fid)" by auto
  with assms(1) RemoveClicked show ?thesis
    by (simp add: removeSharedFile_def map_get_map_delete_other)
next
  case (Message topic data)
  with assms(1) show ?thesis
    by (simp add: on_message_def handle_shared split: sum.splits)
next
  case (PeerConnected env)
  with assms(1) show ?thesis
    by (simp add: on_peer_connect_def announce_each_state)
qed (use assms(1) in simp_all)

text \<open>
  C8, as the code has it. The ids in the shared table are distinct in every state the
  program reaches. An entry that is in the table stays in it, unchanged, through every
  sequence of events in which its Remove button is not clicked and no
  \<^verbatim>\<open>shareFile\<close> draws its id again: nothing expires, and announcements, peer
  connections, requests and inbound streams leave it alone.
\<close>

theorem shared_entry_lifetime:
  assumes "map_get (Some (JStr i)) (sharedFiles (run self evs)) = Some fd"
    and "list_all (\<lambda>e. \<not> removes i e \<and> \<not> redraws i e) evs'"
  shows "distinct (map sf_id (getSharedFiles (run self (evs @ evs')))) \<and>
         map_get (Some (JStr i)) (sharedFiles (run self (evs @ evs'))) = Some fd"
proof -
  have "keyed file_key (sharedFiles (run self (evs @ evs')))"
    using run_wf [of self "evs @ evs'"] by (simp add: wf_state_def)
  then have "distinct (map sf_id (getSharedFiles (run self (evs @ evs'))))"
    unfolding getSharedFiles_def map_values_def by (rule keyed_distinct_ids)
  moreover from assms(2)
  have "map_get (Some (JStr i)) (sharedFiles (run self (evs @ evs'))) = Some fd"
  proof (induction evs' rule: rev_induct)
    case Nil
    with assms(1) show ?case by simp
  next
    case (snoc e evs')
    then have "map_get (Some (JStr i)) (sharedFiles (run self (evs @ evs'))) = Some fd"
      and "\<not> removes i e" and "\<not> redraws i e"
      by simp_all
    then have "map_get (Some (JStr i)) (sharedFiles (step self (run self (evs @ evs')) e)) = Some fd"
      by (rule step_keeps_entry)
    then show ?case
      using run_snoc [of self "evs @ evs'" e] by simp
  qed
  ultimately show ?thesis by simp
qed

theorem shared_entry_lifetime_witness:
  "map_get (Some (JStr ''k3j9x0q1z''))
     (sharedFiles (run ''QmSelf''
        ([FileChosen
            \<lparr>random_id = ''k3j9x0q1z'', reader = Loaded ''data:,a'', now_stored = 1,
             now_announced = 2, publish = None\<rparr>
            \<lparr>f_name = ''a.txt'', f_type = ''text/plain'', f_size = 1\<rparr>] @
         [FileChosen
            \<lparr>random_id = ''zzzzzzzzz'', reader = Loaded ''data:,b'', now_stored = 3,
             now_announced = 4, publish = None\<rparr>
            \<lparr>f_name = ''b.txt'', f_type = ''text/plain'', f_size = 1\<rparr>,
          RemoveClicked ''zzzzzzzzz''])))
     = Some \<lparr>sf_id = ''k3j9x0q1z'', sf_name = ''a.txt'', sf_type = ''text/plain'', sf_size = 1,
             sf_data = ''data:,a'', sf_timestamp = 1\<rparr>"
proof -
  have h1: "map_get (Some (JStr ''k3j9x0q1z''))
     (sharedFiles (run ''QmSelf''
        [FileChosen
            \<lparr>random_id = ''k3j9x0q1z'', reader = Loaded ''data:,a'', now_stored = 1,
             now_announced = 2, publish = None\<rparr>
            \<lparr>f_name = ''a.txt'', f_type = ''text/plain'', f_size = 1\<rparr>]))
     = Some \<lparr>sf_id = ''k3j9x0q1z'', sf_name = ''a.txt'', sf_type = ''text/plain'', sf_size = 1,
             sf_data = ''data:,a'', sf_timestamp = 1\<rparr>"
    by (simp add: run_def init_def shareFile_state fileData_of_def)
  have h2: "list_all (\<lambda>e. \<not> removes ''k3j9x0q1z'' e \<and> \<not> redraws ''k3j9x0q1z'' e)
     [FileChosen
            \<lparr>random_id = ''zzzzzzzzz'', reader = Loaded ''data:,b'', now_stored = 3,
             now_announced = 4, publish = None\<rparr>
            \<lparr>f_name = ''b.txt'', f_type = ''text/plain'', f_size = 1\<rparr>,
      RemoveClicked ''zzzzzzzzz'']"
    by simp
  from shared_entry_lifetime [OF h1 h2] show ?thesis
    by (rule conjunct2)
qed

text \<open>
  C8, as the claim has it, fails where two calls of \<^verbatim>\<open>shareFile\<close> draw the same id
  (the id is nine base-36 digits of \<^verbatim>\<open>Math.random()\<close>, and nothing checks that it is
  new): the second \<^verbatim>\<open>set\<close> replaces the first file, which no Remove click has taken
  out.
\<close>

theorem second_share_displaces_first:
  "map sf_name (getSharedFiles (run ''QmSelf''
     [FileChosen
        \<lparr>random_id = ''k3j9x0q1z'', reader = Loaded ''data:,a'', now_stored = 1,
         now_announced = 2, publish = None\<rparr>
        \<lparr>f_name = ''a.txt'', f_type = ''text/plain'', f_size = 1\<rparr>])) = [''a.txt''] \<and>
   map sf_name (getSharedFiles (run ''QmSelf''
     [FileChosen
        \<lparr>random_id = ''k3j9x0q1z'', reader = Loaded ''data:,a'', now_stored = 1,
         now_announced = 2, publish = None\<rparr>
        \<lparr>f_name = ''a.txt'', f_type = ''text/plain'', f_size = 1\<rparr>,
      FileChosen
        \<lparr>random_id = ''k3j9x0q1z'', reader = Loaded ''data:,b'', now_stored = 3,
         now_announced = 4, publish = None\<rparr>
        \<lparr>f_name = ''b.txt'', f_type = ''text/plain'', f_size = 1\<rparr>])) = [''b.txt'']"
  by (simp add: run_def init_def shareFile_state fileData_of_def getSharedFiles_def
      map_values_def)

section \<open>The responder: the claims\<close>

lemma send_attempted: "attempted (snd (send v s)) = attempted s @ [v]"
  by (simp add: send_def split: list.splits option.splits)

lemma send_open_sink: "send v (open_sink []) = (Inr (), \<lparr>outcomes = [], attempted = [v], delivered = [v]\<rparr>)"
  by (simp add: send_def open_sink_def)

text \<open>
  The handler of the second listing answers a request that it does not serve: when the
  request decodes and its \<^verbatim>\<open>type\<close> is not \<^verbatim>\<open>"request"\<close> or its \<^verbatim>\<open>fileId\<close> is
  not a key of the shared table, the first message handed to the sink is the error object.
\<close>

lemma serve_2_unserved:
  assumes "read_first source = Inr data" and "JSON_parse data = Inr req"
    and "destructure_request req = Inr (type, fid)"
    and "\<not> (type = Some (JStr ''request'') \<and> map_has fid (sharedFiles st))"
  shows "serve_2 st source s = send (error_response ''File not found or invalid request'') s"
  using assms by (auto simp: serve_2_def)

lemma handle_stream_2_unserved:
  assumes "read_first source = Inr data" and "JSON_parse data = Inr req"
    and "destructure_request req = Inr (type, fid)"
    and "\<not> (type = Some (JStr ''request'') \<and> map_has fid (sharedFiles st))"
  shows "handle_stream_2 st source (open_sink []) =
           (Inr (), \<lparr>outcomes = [], attempted = [error_response ''File not found or invalid request''],
                     delivered = [error_response ''File not found or invalid request'']\<rparr>)"
  using serve_2_unserved [OF assms] by (simp add: handle_stream_2_def send_open_sink)

text \<open>
  Whatever the \<^verbatim>\<open>try\<close> block of the second listing throws, the handler hands
  \<^verbatim>\<open>{ error: err.message }\<close> to the sink, and it returns normally on every input.
\<close>

lemma handle_stream_2_reports:
  assumes "serve_2 st source s = (Inl err, s')"
  shows "attempted (snd (handle_stream_2 st source s)) = attempted s' @ [error_response (message err)]"
proof -
  have "attempted (snd (send (error_response (message err)) s')) =
          attempted s' @ [error_response (message err)]"
    by (rule send_attempted)
  with assms show ?thesis
    by (cases "send (error_response (message err)) s'")
       (auto simp: handle_stream_2_def split: sum.splits)
qed

lemma handle_stream_2_returns: "fst (handle_stream_2 st source s) = Inr ()"
  by (simp add: handle_stream_2_def split: prod.splits sum.splits)

lemma handle_stream_1_returns: "fst (handle_stream_1 st source s) = Inr ()"
  by (simp add: handle_stream_1_def split: prod.splits sum.splits)

text \<open>
  Between a requester and a responder of the second listing, on a stream that loses
  nothing: a request for an id that the responder does not share is rejected with the
  responder's message.
\<close>

lemma absent_file_rejected_2:
  assumes "\<not> map_has (Some (JStr fid)) (sharedFiles st)"
  shows "requestFile_2 (reachable_peer (responder_2 st)) pid fid =
           Inl (JsError ''Failed to request file: Peer response error: File not found or invalid request'')"
proof -
  have "handle_stream_2 st (Inr [Json (request_message fid)]) (open_sink []) =
          (Inr (), \<lparr>outcomes = [], attempted = [error_response ''File not found or invalid request''],
                    delivered = [error_response ''File not found or invalid request'']\<rparr>)"
  proof (rule handle_stream_2_unserved)
    show "read_first (Inr [Json (request_message fid)]) = Inr (Json (request_message fid))"
      by (simp add: read_first_def)
    show "JSON_parse (Json (request_message fid)) = Inr (request_message fid)"
      by (simp add: JSON_parse_def)
    show "destructure_request (request_message fid) = Inr (Some (JStr ''request''), Some (JStr fid))"
      by (simp add: destructure_request_def request_message_def)
    show "\<not> (Some (JStr ''request'') = Some (JStr ''request'') \<and>
              map_has (Some (JStr fid)) (sharedFiles st))"
      using assms by simp
  qed
  then have "responder_2 st [request_message fid] =
               Inr [Json (error_response ''File not found or invalid request'')]"
    by (simp add: responder_2_def)
  then show ?thesis
    by (simp add: requestFile_2_def request_2_def reachable_peer_def send_open_sink read_first_def
        JSON_parse_def error_response_def template_def)
qed

text \<open>
  More generally, whatever the sink does: for every request that decodes and is not
  served (null included, on which the destructuring throws), the first message that the
  handler of the second listing hands to the sink is an error object.
\<close>

lemma handle_stream_2_answers:
  assumes "\<not> (\<exists>fid. destructure_request req = Inr (Some (JStr ''request''), fid) \<and>
                 map_has fid (sharedFiles st))"
  shows "\<exists>msg more. attempted (snd (handle_stream_2 st (Inr (Json req # rest)) (open_sink os)))
                        = error_response msg # more"
proof (cases "destructure_request req")
  case (Inl err)
  then have "serve_2 st (Inr (Json req # rest)) (open_sink os) = (Inl err, open_sink os)"
    by (simp add: serve_2_def read_first_def JSON_parse_def)
  from handle_stream_2_reports [OF this] show ?thesis
    by (auto simp: open_sink_def)
next
  case (Inr p)
  obtain type fid where p: "p = (type, fid)" by (cases p)
  with Inr assms have "\<not> (type = Some (JStr ''request'') \<and> map_has fid (sharedFiles st))"
    by auto
  with Inr p have s: "serve_2 st (Inr (Json req # rest)) (open_sink os) =
                     send (error_response ''File not found or invalid request'') (open_sink os)"
    by (auto simp: serve_2_def read_first_def JSON_parse_def)
  obtain r s' where r: "send (error_response ''File not found or invalid request'') (open_sink os) = (r, s')"
    by (cases "send (error_response ''File not found or invalid request'') (open_sink os)")
  then have a: "attempted s' = [error_response ''File not found or invalid request'']"
    using send_attempted [of "error_response ''File not found or invalid request''" "open_sink os"]
    by (simp add: open_sink_def)
  show ?thesis
  proof (cases r)
    case (Inl err)
    with s r have "serve_2 st (Inr (Json req # rest)) (open_sink os) = (Inl err, s')" by simp
    from handle_stream_2_reports [OF this] a show ?thesis by auto
  next
    case (Inr u)
    with s r a show ?thesis by (auto simp: handle_stream_2_def)
  qed
qed

text \<open>
  A request for a file that the responder shares, on a stream that loses nothing: the
  requester of either listing returns the stored record, as the responder of the same
  listing sent it.
\<close>

lemma served_file_returned:
  assumes "map_get (Some (JStr fid)) (sharedFiles st) = Some fd"
  shows "requestFile_1 (reachable_peer (responder_1 st)) pid fid = Inr (json_of_fileData fd) \<and>
         requestFile_2 (reachable_peer (responder_2 st)) pid fid = Inr (json_of_fileData fd)"
proof -
  have "serve_1 st (Inr [Json (request_message fid)]) (open_sink []) =
          send (json_of_fileData fd) (open_sink [])"
    and "serve_2 st (Inr [Json (request_message fid)]) (open_sink []) =
          send (json_of_fileData fd) (open_sink [])"
    using assms
    by (simp_all add: serve_1_def serve_2_def read_first_def JSON_parse_def destructure_request_def
        request_message_def map_has_def)
  then have "responder_1 st [request_message fid] = Inr [Json (json_of_fileData fd)]"
    and "responder_2 st [request_message fid] = Inr [Json (json_of_fileData fd)]"
    by (simp_all add: responder_1_def responder_2_def handle_stream_1_def handle_stream_2_def
        send_open_sink)
  then show ?thesis
    by (simp add: requestFile_1_def requestFile_2_def request_2_def reachable_peer_def
        send_open_sink read_first_def JSON_parse_def json_of_fileData_def)
qed

text \<open>
  C1 at the handler of the first listing (lines 20 to 47), on a peer that shares nothing:
  the request \<^verbatim>\<open>{ type: "request", fileId: "nofile" }\<close> arrives and decodes, and the
  handler returns with nothing handed to the sink. Its \<^verbatim>\<open>if\<close> has no
  \<^verbatim>\<open>else\<close>.
\<close>

theorem first_listing_unserved_request_unanswered:
  "handle_stream_1 init (Inr [Json (request_message ''nofile'')]) (open_sink []) =
     (Inr (), \<lparr>outcomes = [], attempted = [], delivered = []\<rparr>)"
  by (simp add: handle_stream_1_def serve_1_def read_first_def JSON_parse_def
      destructure_request_def request_message_def init_def map_has_def open_sink_def)

text \<open>
  C6 at the handler of the first listing: a message that is not JSON makes
  \<^verbatim>\<open>JSON.parse\<close> throw inside the \<^verbatim>\<open>try\<close> block; the \<^verbatim>\<open>catch\<close> (lines 43
  to 45) swallows the exception and the handler returns with nothing handed to the sink.
\<close>

theorem first_listing_exception_unreported:
  "serve_1 init (Inr [NotJson ''Unexpected token h in JSON at position 0'']) (open_sink []) =
     (Inl (JsError ''Unexpected token h in JSON at position 0''), open_sink []) \<and>
   handle_stream_1 init (Inr [NotJson ''Unexpected token h in JSON at position 0'']) (open_sink []) =
     (Inr (), \<lparr>outcomes = [], attempted = [], delivered = []\<rparr>)"
  by (simp add: handle_stream_1_def serve_1_def read_first_def JSON_parse_def open_sink_def)

section \<open>The requester: the claims\<close>

lemma connected_send:
  "connected env pid \<Longrightarrow>
     send v (open_sink (writes env)) =
       (Inr (), \<lparr>outcomes = tl (writes env), attempted = [v], delivered = [v]\<rparr>)"
  by (auto simp: connected_def send_def open_sink_def split: list.splits option.splits)





text \<open>
  C10. When the call gets through and the response decodes to a value without an
  \<^verbatim>\<open>error\<close> property, \<^verbatim>\<open>requestFile\<close> of either listing returns that value as it
  is: neither its \<^verbatim>\<open>id\<close> nor the presence of \<^verbatim>\<open>name\<close>, \<^verbatim>\<open>size\<close> or
  \<^verbatim>\<open>data\<close> is looked at.
\<close>

theorem response_passed_through:
  assumes "connected env pid"
    and "remote env [request_message fid] = Inr (Json response # rest)"
    and "get_prop response ''error'' = Inr None"
  shows "requestFile_1 env pid fid = Inr response \<and> requestFile_2 env pid fid = Inr response"
proof -
  have "peerIdFromString env pid = None" and "dialProtocol env pid = Inr True"
    using assms(1) by (simp_all add: connected_def)
  then show ?thesis
    using assms(2,3) connected_send [OF assms(1), of "request_message fid"]
    by (simp add: requestFile_1_def requestFile_2_def request_2_def read_first_def JSON_parse_def)
qed

theorem response_passed_through_witness:
  "get_prop (JObj [(''id'', JStr ''other''), (''colour'', JStr ''red'')]) ''error'' = Inr None \<and>
   requestFile_1 (reachable_peer (replies [Json (JObj [(''id'', JStr ''other''), (''colour'', JStr ''red'')])]))
     ''QmPeer'' ''abc'' = Inr (JObj [(''id'', JStr ''other''), (''colour'', JStr ''red'')]) \<and>
   requestFile_2 (reachable_peer (replies [Json (JObj [(''id'', JStr ''other''), (''colour'', JStr ''red'')])]))
     ''QmPeer'' ''abc'' = Inr (JObj [(''id'', JStr ''other''), (''colour'', JStr ''red'')])"
  using response_passed_through
    [of "reachable_peer (replies [Json (JObj [(''id'', JStr ''other''), (''colour'', JStr ''red'')])])"
        "''QmPeer''" "''abc''" "JObj [(''id'', JStr ''other''), (''colour'', JStr ''red'')]" "[]"]
  by (simp add: connected_def reachable_peer_def replies_def)

end
